theory Spec2Isabelle
  imports Main "HOL-Library.Finite_Map" "HOL-Library.Char_ord" "HOL-Library.List_Lexorder"
begin

section \<open>The key-value store of jere-mie/keyvalue\<close>

text \<open>
  The store keeps an append-only log file of JSON lines and, optionally, a Go map that
  mirrors it. The embedding follows the later copy of the store (the one with
  \<^verbatim>\<open>StoreConfig\<close> and \<^verbatim>\<open>FindByFunction\<close>); \<^verbatim>\<open>load\<close>, \<^verbatim>\<open>Set\<close>,
  \<^verbatim>\<open>Delete\<close> and \<^verbatim>\<open>Compact\<close> are the same text in the earlier copy, whose
  \<^verbatim>\<open>Get\<close> differs and is embedded separately as \<open>Get_early\<close>.

  What the embedding abstracts:
  \<^item> A line of the log file is represented by what \<^verbatim>\<open>json.Unmarshal\<close> makes of it:
    \<open>Some entry\<close>, or \<open>None\<close> for a line that does not parse. \<^verbatim>\<open>json.Marshal\<close> of
    an \<^verbatim>\<open>Entry\<close> (two strings and a bool) does not fail, and the line it writes is taken
    to parse back to the same entry.
  \<^item> The field \<open>logfile\<close> holds the contents of the file named \<^verbatim>\<open>s.filename\<close>,
    line by line.
  \<^item> The file handle \<^verbatim>\<open>s.file\<close> is the field \<open>fhandle\<close>, \<open>Open\<close> or
    \<open>Closed\<close>; \<^verbatim>\<open>WriteString\<close> on a closed handle fails and writes nothing.
    Opening, creating and renaming files are taken to succeed.
  \<^item> Every line is taken to fit the buffer of \<^verbatim>\<open>bufio.Scanner\<close>, so that a scan
    reaches the end of the file.
  \<^item> The mutex is left out: every operation is run to completion on its own.
  \<^item> Go leaves the iteration order of \<^verbatim>\<open>range\<close> over a map unspecified; the embedding
    visits the keys in ascending order.
  \<^item> \<^verbatim>\<open>int\<close> limits are \<open>int\<close>: they are only compared, never computed with.
\<close>

subsection \<open>Data\<close>

record Entry =
  Key :: string
  Value :: string
  Deleted :: bool

type_synonym line = "Entry option"

datatype handle = Open | Closed

record Store =
  data :: "(string, string) fmap"
  useMemory :: bool
  logfile :: "line list"
  fhandle :: handle
  maxKeys :: int
  maxKeySize :: int
  maxValueSize :: int

record StoreConfig =
  UseMemory :: bool
  MaxKeys :: int
  MaxKeySize :: int
  MaxValueSize :: int

text \<open>The errors the code builds with \<^verbatim>\<open>fmt.Errorf\<close>, one constructor per message.\<close>

datatype error =
  KeyTooLarge      \<comment> \<open>key exceeds max size\<close>
  | ValueTooLarge  \<comment> \<open>value exceeds max size\<close>
  | MaxKeysReached \<comment> \<open>store has reached max number of keys\<close>
  | WriteError     \<comment> \<open>error writing to log file\<close>
  | NoEntriesFound \<comment> \<open>no entries found matching the criteria\<close>

subsection \<open>File and map primitives\<close>

definition WriteString :: "handle \<Rightarrow> line list \<Rightarrow> Entry \<Rightarrow> line list option" where
  "WriteString h f e = (case h of Closed \<Rightarrow> None | Open \<Rightarrow> Some (f @ [Some e]))"

definition len :: "(string, string) fmap \<Rightarrow> int" where
  "len m = int (fcard (fmdom m))"

definition range_map :: "(string, string) fmap \<Rightarrow> (string \<times> string) list" where
  "range_map m = sorted_list_of_fmap m"

subsection \<open>Construction and load\<close>

fun load_loop :: "int \<Rightarrow> line list \<Rightarrow> (string, string) fmap \<Rightarrow> (string, string) fmap" where
  "load_loop mk [] d = d"
| "load_loop mk (None # ls) d = load_loop mk ls d"
| "load_loop mk (Some entry # ls) d =
     (let d' = (if Deleted entry then fmdrop (Key entry) d
                else fmupd (Key entry) (Value entry) d)
      in if len d' > mk then d' else load_loop mk ls d')"

definition load :: "Store \<Rightarrow> Store" where
  "load s = s\<lparr>data := load_loop (maxKeys s) (logfile s) (data s)\<rparr>"

text \<open>\<open>NewStore\<close> takes the contents of the file found under the given name.\<close>

definition NewStore :: "line list \<Rightarrow> StoreConfig \<Rightarrow> Store" where
  "NewStore contents config =
     (let s = \<lparr>data = fmempty, useMemory = UseMemory config, logfile = contents,
                fhandle = Open, maxKeys = MaxKeys config, maxKeySize = MaxKeySize config,
                maxValueSize = MaxValueSize config\<rparr>
      in if UseMemory config then load s else s)"

subsection \<open>Set, Get, Delete\<close>

definition Set :: "Store \<Rightarrow> string \<Rightarrow> string \<Rightarrow> error option \<times> Store" where
  "Set s key value =
     (if int (length key) > maxKeySize s then (Some KeyTooLarge, s)
      else if int (length value) > maxValueSize s then (Some ValueTooLarge, s)
      else if useMemory s \<and> len (data s) \<ge> maxKeys s then (Some MaxKeysReached, s)
      else (case WriteString (fhandle s) (logfile s) \<lparr>Key = key, Value = value, Deleted = False\<rparr> of
              None \<Rightarrow> (Some WriteError, s)
            | Some f \<Rightarrow>
                (None, s\<lparr>logfile := f,
                          data := (if useMemory s then fmupd key value (data s) else data s)\<rparr>)))"

fun scan :: "string \<Rightarrow> line list \<Rightarrow> string \<times> bool \<Rightarrow> string \<times> bool" where
  "scan key [] (lastValue, exists) = (lastValue, exists)"
| "scan key (None # ls) (lastValue, exists) = scan key ls (lastValue, exists)"
| "scan key (Some entry # ls) (lastValue, exists) =
     (if Key entry = key
      then (if Deleted entry then scan key ls ('''', False)
            else scan key ls (Value entry, True))
      else scan key ls (lastValue, exists))"

definition Get :: "Store \<Rightarrow> string \<Rightarrow> string \<times> bool" where
  "Get s key =
     (if useMemory s
      then (case fmlookup (data s) key of Some val \<Rightarrow> (val, True) | None \<Rightarrow> ('''', False))
      else scan key (logfile s) ('''', False))"

definition Delete :: "Store \<Rightarrow> string \<Rightarrow> error option \<times> Store" where
  "Delete s key =
     (case WriteString (fhandle s) (logfile s) \<lparr>Key = key, Value = '''', Deleted = True\<rparr> of
        None \<Rightarrow> (Some WriteError, s)
      | Some f \<Rightarrow>
          (None, s\<lparr>logfile := f,
                    data := (if useMemory s then fmdrop key (data s) else data s)\<rparr>))"

text \<open>
  The earlier copy's \<^verbatim>\<open>Get\<close>: in file-only mode it returns at the first tombstone
  of the key instead of resetting and scanning on.
\<close>

fun scan_early :: "string \<Rightarrow> line list \<Rightarrow> string \<times> bool \<Rightarrow> string \<times> bool" where
  "scan_early key [] (lastValue, exists) = (lastValue, exists)"
| "scan_early key (None # ls) (lastValue, exists) = scan_early key ls (lastValue, exists)"
| "scan_early key (Some entry # ls) (lastValue, exists) =
     (if Key entry = key
      then (if Deleted entry then ('''', False)
            else scan_early key ls (Value entry, True))
      else scan_early key ls (lastValue, exists))"

definition Get_early :: "Store \<Rightarrow> string \<Rightarrow> string \<times> bool" where
  "Get_early s key =
     (if useMemory s
      then (case fmlookup (data s) key of Some val \<Rightarrow> (val, True) | None \<Rightarrow> ('''', False))
      else scan_early key (logfile s) ('''', False))"

subsection \<open>Compact, Close\<close>

definition Compact :: "Store \<Rightarrow> Store" where
  "Compact s =
     s\<lparr>logfile := map (\<lambda>(key, value). Some \<lparr>Key = key, Value = value, Deleted = False\<rparr>)
                     (range_map (data s)),
       fhandle := Open\<rparr>"

definition Close :: "Store \<Rightarrow> Store" where
  "Close s = s\<lparr>fhandle := Closed\<rparr>"

subsection \<open>FindByFunction\<close>

definition match_data ::
  "(string \<Rightarrow> string \<Rightarrow> bool) \<Rightarrow> (string, string) fmap \<Rightarrow> (string, string) fmap
     \<Rightarrow> (string, string) fmap" where
  "match_data fn m results =
     fold (\<lambda>(key, value) r. if fn key value then fmupd key value r else r) (range_map m) results"

fun match_lines ::
  "(string \<Rightarrow> string \<Rightarrow> bool) \<Rightarrow> line list \<Rightarrow> (string, string) fmap
     \<Rightarrow> (string, string) fmap" where
  "match_lines fn [] results = results"
| "match_lines fn (None # ls) results = match_lines fn ls results"
| "match_lines fn (Some entry # ls) results =
     (if Deleted entry then match_lines fn ls results
      else if fn (Key entry) (Value entry)
      then match_lines fn ls (fmupd (Key entry) (Value entry) results)
      else match_lines fn ls results)"

definition FindByFunction :: "Store \<Rightarrow> (string \<Rightarrow> string \<Rightarrow> bool) \<Rightarrow> error + Entry list" where
  "FindByFunction s fn =
     (let results = match_data fn (data s) fmempty;
          results = (if \<not> useMemory s then match_lines fn (logfile s) results else results);
          result = map (\<lambda>(key, value). \<lparr>Key = key, Value = value, Deleted = False\<rparr>)
                     (range_map results)
      in if length result = 0 then Inl NoEntriesFound else Inr result)"

subsection \<open>Sequences of calls\<close>




subsection \<open>The specification's notions\<close>

text \<open>
  Replay as the specification words it (4.2): records in log order, a tombstone removes
  the key from the working state, any other record sets or overwrites it, a malformed
  record is skipped.
\<close>

fun replay :: "line list \<Rightarrow> (string, string) fmap \<Rightarrow> (string, string) fmap" where
  "replay [] m = m"
| "replay (None # ls) m = replay ls m"
| "replay (Some e # ls) m =
     replay ls (if Deleted e then fmdrop (Key e) m else fmupd (Key e) (Value e) m)"

text \<open>The canonical state of a log: its replay from the empty state.\<close>

definition canonical :: "line list \<Rightarrow> (string, string) fmap" where
  "canonical ls = replay ls fmempty"





subsection \<open>Example stores\<close>

definition small_config :: "bool \<Rightarrow> StoreConfig" where
  "small_config mem = \<lparr>UseMemory = mem, MaxKeys = 1, MaxKeySize = 2, MaxValueSize = 2\<rparr>"

definition put :: "string \<Rightarrow> string \<Rightarrow> line" where
  "put k v = Some \<lparr>Key = k, Value = v, Deleted = False\<rparr>"

definition tombstone :: "string \<Rightarrow> line" where
  "tombstone k = Some \<lparr>Key = k, Value = '''', Deleted = True\<rparr>"

text \<open>A memory-mode store holding its one permitted key, and its unindexed twin.\<close>

definition full_store :: Store where
  "full_store = snd (Set (NewStore [] (small_config True)) ''a'' ''1'')"

definition file_store :: Store where
  "file_store = snd (Set (NewStore [] (small_config False)) ''a'' ''1'')"



section \<open>Replay and scans\<close>







text \<open>The earlier copy's \<^verbatim>\<open>Get\<close> loses a key that was deleted and then set again.\<close>

lemma Get_early_returns_at_tombstone:
  "Get_early (snd (Set (snd (Delete file_store ''a'')) ''a'' ''2'')) ''a'' = ('''', False)"
  by code_simp

section \<open>Compaction\<close>

lemma replay_puts:
  "distinct (map fst kvs) \<Longrightarrow>
   fmlookup (replay (map (\<lambda>(key, value). Some \<lparr>Key = key, Value = value, Deleted = False\<rparr>) kvs) m) k
     = (case map_of kvs k of Some v \<Rightarrow> Some v | None \<Rightarrow> fmlookup m k)"
proof (induction kvs arbitrary: m)
  case Nil
  show ?case by simp
next
  case (Cons p kvs)
  obtain a b where p: "p = (a, b)" by (cases p)
  from Cons.prems p have na: "a \<notin> fst ` set kvs" and d: "distinct (map fst kvs)" by simp_all
  have none: "map_of kvs a = None" using na by (simp add: map_of_eq_None_iff)
  show ?case
    using Cons.IH [OF d, of "fmupd a b m"] p none
    by (auto split: option.splits)
qed

lemma distinct_range_map: "distinct (map fst (range_map m))"
  by (simp add: range_map_def sorted_list_of_fmap_def comp_def sorted_list_of_fset.rep_eq)

text \<open>
  Whatever the mode, the log that \<^verbatim>\<open>Compact\<close> writes replays to the map \<^verbatim>\<open>s.data\<close>:
  in memory mode that is the Index.
\<close>

lemma Compact_replays_to_data: "canonical (logfile (Compact s)) = data s"
proof (rule fmap_ext)
  fix k
  show "fmlookup (canonical (logfile (Compact s))) k = fmlookup (data s) k"
    using replay_puts [OF distinct_range_map, of "data s" fmempty k]
    by (simp add: Compact_def canonical_def range_map_def split: option.splits)
qed

text \<open>
  Claim C1. \<^verbatim>\<open>Compact\<close> rewrites the log so that its replay is the canonical state of
  the log before compaction, in both modes; with memory mode disabled it first replays the
  log. The code writes the map \<^verbatim>\<open>s.data\<close> in both modes and never reads the log; an
  unindexed store never fills that map. On the unindexed store whose log is the one record
  \<open>a \<mapsto> 1\<close>, \<^verbatim>\<open>Compact\<close> leaves an empty log and the key is gone.
\<close>

theorem Compact_unindexed_empties_log:
  "\<not> useMemory file_store
   \<and> logfile file_store = [put ''a'' ''1'']
   \<and> Get file_store ''a'' = (''1'', True)
   \<and> logfile (Compact file_store) = []
   \<and> Get (Compact file_store) ''a'' = ('''', False)"
  by code_simp

section \<open>Set and its capacity check\<close>

text \<open>
  Claim C2, as amended. With memory mode enabled and the Index holding \<^verbatim>\<open>maxKeys\<close>
  keys (or more), every \<^verbatim>\<open>Set\<close> whose key and value pass the size checks fails with
  the max-keys error and leaves the store as it was, whether or not the key is already in
  the Index: the capacity check does not look at the key.
\<close>

theorem Set_at_capacity_rejects:
  "useMemory s \<Longrightarrow> len (data s) \<ge> maxKeys s \<Longrightarrow> int (length key) \<le> maxKeySize s \<Longrightarrow>
   int (length v) \<le> maxValueSize s \<Longrightarrow> Set s key v = (Some MaxKeysReached, s)"
  by (simp add: Set_def)

theorem Set_at_capacity_rejects_witness:
  "useMemory full_store \<and> len (data full_store) \<ge> maxKeys full_store
   \<and> int (length ''a'') \<le> maxKeySize full_store \<and> int (length ''2'') \<le> maxValueSize full_store
   \<and> Set full_store ''a'' ''2'' = (Some MaxKeysReached, full_store)"
proof -
  have h1: "useMemory full_store" by code_simp
  have h2: "len (data full_store) \<ge> maxKeys full_store" by code_simp
  have h3: "int (length ''a'') \<le> maxKeySize full_store" by code_simp
  have h4: "int (length ''2'') \<le> maxValueSize full_store" by code_simp
  from Set_at_capacity_rejects [OF h1 h2 h3 h4] h1 h2 h3 h4 show ?thesis by blast
qed

text \<open>
  Claim C2 as stated fails: the store holds exactly \<^verbatim>\<open>maxKeys = 1\<close> keys, the key
  \<open>a\<close> is one of them, the handle is open and the sizes are within the limits, and yet
  overwriting \<open>a\<close> is rejected.
\<close>

theorem Set_overwrite_at_capacity_counterexample:
  "useMemory full_store
   \<and> len (data full_store) = maxKeys full_store
   \<and> fmlookup (data full_store) ''a'' = Some ''1''
   \<and> fhandle full_store = Open
   \<and> int (length ''a'') \<le> maxKeySize full_store
   \<and> int (length ''2'') \<le> maxValueSize full_store
   \<and> fst (Set full_store ''a'' ''2'') = Some MaxKeysReached"
  by code_simp

text \<open>
  Claim C8. A \<^verbatim>\<open>Set\<close> that returns an error, from the size checks, the capacity check
  or the failed write, leaves the log and the Index (the whole store) exactly as they were.
\<close>

theorem Set_error_leaves_store:
  "fst (Set s key v) \<noteq> None \<Longrightarrow>
   snd (Set s key v) = s \<and> logfile (snd (Set s key v)) = logfile s
   \<and> data (snd (Set s key v)) = data s"
  by (auto simp: Set_def WriteString_def split: handle.splits if_splits)

theorem Set_error_leaves_store_witness:
  "fst (Set (Close file_store) ''b'' ''2'') = Some WriteError
   \<and> snd (Set (Close file_store) ''b'' ''2'') = Close file_store
   \<and> logfile (snd (Set (Close file_store) ''b'' ''2'')) = logfile (Close file_store)
   \<and> data (snd (Set (Close file_store) ''b'' ''2'')) = data (Close file_store)"
proof -
  have e: "fst (Set (Close file_store) ''b'' ''2'') = Some WriteError" by code_simp
  then have h: "fst (Set (Close file_store) ''b'' ''2'') \<noteq> None" by simp
  from Set_error_leaves_store [OF h] e show ?thesis by blast
qed

section \<open>Delete\<close>

text \<open>
  Claim C9. \<^verbatim>\<open>Delete\<close> validates nothing: it never returns a size or capacity error,
  and with an open handle it appends a tombstone and succeeds, for every key (also one
  longer than \<^verbatim>\<open>maxKeySize\<close>) and every Index (also one at \<^verbatim>\<open>maxKeys\<close>).
\<close>

theorem Delete_no_validation:
  "fst (Delete s key) \<noteq> Some KeyTooLarge
   \<and> fst (Delete s key) \<noteq> Some ValueTooLarge
   \<and> fst (Delete s key) \<noteq> Some MaxKeysReached
   \<and> (fhandle s = Open \<longrightarrow>
        Delete s key =
          (None, s\<lparr>logfile := logfile s @ [Some \<lparr>Key = key, Value = '''', Deleted = True\<rparr>],
                    data := (if useMemory s then fmdrop key (data s) else data s)\<rparr>))"
  by (auto simp: Delete_def WriteString_def split: handle.splits)

theorem Delete_no_validation_witness:
  "fhandle full_store = Open
   \<and> int (length ''abc'') > maxKeySize full_store
   \<and> len (data full_store) \<ge> maxKeys full_store
   \<and> Delete full_store ''abc'' =
        (None, full_store\<lparr>logfile := logfile full_store @ [Some \<lparr>Key = ''abc'', Value = '''', Deleted = True\<rparr>],
                    data := (if useMemory full_store then fmdrop ''abc'' (data full_store)
                             else data full_store)\<rparr>)"
proof -
  have h: "fhandle full_store = Open" by code_simp
  have k: "int (length ''abc'') > maxKeySize full_store" by code_simp
  have c: "len (data full_store) \<ge> maxKeys full_store" by code_simp
  from Delete_no_validation [of full_store "''abc''"] h k c show ?thesis by blast
qed

section \<open>Close\<close>



section \<open>Load\<close>






section \<open>Get\<close>



section \<open>FindByFunction\<close>

lemma fold_matches:
  "distinct (map fst kvs) \<Longrightarrow>
   fmlookup (fold (\<lambda>(key, value) r. if fn key value then fmupd key value r else r) kvs r) k
     = (case map_of kvs k of
          Some v \<Rightarrow> if fn k v then Some v else fmlookup r k
        | None \<Rightarrow> fmlookup r k)"
proof (induction kvs arbitrary: r)
  case Nil
  show ?case by simp
next
  case (Cons p kvs)
  obtain a b where p: "p = (a, b)" by (cases p)
  from Cons.prems p have na: "a \<notin> fst ` set kvs" and d: "distinct (map fst kvs)" by simp_all
  have none: "map_of kvs a = None" using na by (simp add: map_of_eq_None_iff)
  show ?case
    using Cons.IH [OF d, of "if fn a b then fmupd a b r else r"] p none
    by (auto split: option.splits)
qed

lemma range_map_iff: "(k, v) \<in> set (range_map m) \<longleftrightarrow> fmlookup m k = Some v"
  using map_of_eq_Some_iff [OF distinct_range_map, of m k v]
  by (simp add: range_map_def)

lemma match_data_lookup:
  "fmlookup (match_data fn m fmempty) k =
     (case fmlookup m k of Some v \<Rightarrow> if fn k v then Some v else None | None \<Rightarrow> None)"
  using fold_matches [OF distinct_range_map, of fn m fmempty k]
  by (simp add: match_data_def range_map_def split: option.splits)

text \<open>
  In memory mode the result holds exactly the entries of the Index that satisfy the
  predicate.
\<close>

lemma FindByFunction_memory:
  "useMemory s \<Longrightarrow> FindByFunction s fn = Inr result \<Longrightarrow>
   e \<in> set result \<longleftrightarrow>
     \<not> Deleted e \<and> fmlookup (data s) (Key e) = Some (Value e) \<and> fn (Key e) (Value e)"
proof -
  assume m: "useMemory s" and r: "FindByFunction s fn = Inr result"
  let ?res = "match_data fn (data s) fmempty"
  from m r have result: "result = map (\<lambda>(key, value). \<lparr>Key = key, Value = value, Deleted = False\<rparr>) (range_map ?res)"
    by (simp add: FindByFunction_def Let_def split: if_splits)
  have "e \<in> set result \<longleftrightarrow> \<not> Deleted e \<and> fmlookup ?res (Key e) = Some (Value e)"
  proof (cases e)
    case (fields k v d)
    have "e \<in> set result \<longleftrightarrow>
        (\<exists>a b. (a, b) \<in> set (range_map ?res) \<and> e = \<lparr>Key = a, Value = b, Deleted = False\<rparr>)"
      unfolding result by force
    also have "\<dots> \<longleftrightarrow> \<not> d \<and> (k, v) \<in> set (range_map ?res)"
      using fields by auto
    finally show ?thesis using fields by (simp add: range_map_iff)
  qed
  then show ?thesis by (auto simp: match_data_lookup split: option.splits if_splits)
qed

text \<open>
  Claim C4. In unindexed mode \<^verbatim>\<open>FindByFunction\<close> evaluates the predicate against the
  canonical state of the log: a key deleted after a matching record is excluded, a key
  overwritten after a matching record is judged at its latest value only. The code skips
  tombstones and tests every other line on its own. After \<open>a \<mapsto> 1\<close> and the deletion of
  \<open>a\<close>, the always-true predicate still finds \<open>a\<close>, which \<^verbatim>\<open>Get\<close> reports absent;
  after \<open>a \<mapsto> 1\<close> and \<open>a \<mapsto> 2\<close>, the predicate \<open>value = 1\<close> finds \<open>a\<close> with the
  stale value \<open>1\<close>.
\<close>

theorem FindByFunction_unindexed_raw_lines:
  "logfile (snd (Delete file_store ''a'')) = [put ''a'' ''1'', tombstone ''a'']
   \<and> Get (snd (Delete file_store ''a'')) ''a'' = ('''', False)
   \<and> FindByFunction (snd (Delete file_store ''a'')) (\<lambda>key value. True)
        = Inr [\<lparr>Key = ''a'', Value = ''1'', Deleted = False\<rparr>]
   \<and> logfile (snd (Set file_store ''a'' ''2'')) = [put ''a'' ''1'', put ''a'' ''2'']
   \<and> Get (snd (Set file_store ''a'' ''2'')) ''a'' = (''2'', True)
   \<and> FindByFunction (snd (Set file_store ''a'' ''2'')) (\<lambda>key value. value = ''1'')
        = Inr [\<lparr>Key = ''a'', Value = ''1'', Deleted = False\<rparr>]"
  by code_simp

text \<open>
  Claim C10. No entry of a successful \<^verbatim>\<open>FindByFunction\<close> result is a tombstone: each
  has \<^verbatim>\<open>Deleted\<close> false.
\<close>

theorem FindByFunction_no_tombstones:
  "FindByFunction s fn = Inr result \<Longrightarrow> e \<in> set result \<Longrightarrow> \<not> Deleted e"
  by (auto simp: FindByFunction_def Let_def split: if_splits)

theorem FindByFunction_no_tombstones_witness:
  "FindByFunction (snd (Delete file_store ''a'')) (\<lambda>key value. key = ''a'')
     = Inr [\<lparr>Key = ''a'', Value = ''1'', Deleted = False\<rparr>]
   \<and> \<not> Deleted (hd [\<lparr>Key = ''a'', Value = ''1'', Deleted = False\<rparr>])"
proof -
  have r: "FindByFunction (snd (Delete file_store ''a'')) (\<lambda>key value. key = ''a'')
     = Inr [\<lparr>Key = ''a'', Value = ''1'', Deleted = False\<rparr>]" by code_simp
  have m: "hd [\<lparr>Key = ''a'', Value = ''1'', Deleted = False\<rparr>]
     \<in> set [\<lparr>Key = ''a'', Value = ''1'', Deleted = False\<rparr>]" by simp
  from FindByFunction_no_tombstones [OF r m] r show ?thesis by (rule conjI [rotated])
qed

section \<open>The two modes side by side\<close>










end
